theory Spec2Isabelle
  imports Complex_Main
begin

section \<open>Values that cross the boundary of the Prompt API\<close>

text \<open>
  The package \<^verbatim>\<open>prompt-api-types\<close> holds type declarations only
  (\<^verbatim>\<open>src/prompt-api.ts\<close>). A declaration is modelled by the type expression it
  is written as, and its meaning by the values that are structurally compatible with it.

  The host classes are the ones of the browser platform that the source names; they are
  declared outside the package and are kept nominal here: a value carries the host
  types it is an instance of (on the platform an \<^verbatim>\<open>ArrayBuffer\<close> is also a
  \<^verbatim>\<open>BufferSource\<close>, for instance). \<open>HostWindow\<close> stands for the platform's own
  declaration of the interface \<^verbatim>\<open>Window\<close>, with all the members it requires.
\<close>

datatype host_type =
    Blob | ImageData | ImageBitmap | VideoFrame | OffscreenCanvas
  | HTMLImageElement | SVGImageElement | HTMLCanvasElement | HTMLVideoElement
  | BufferSource | ArrayBuffer | AudioBuffer | AbortSignal | DOMException
  | HostWindow

text \<open>
  A JavaScript value. An object carries the host types it is an instance of (none for
  a plain object literal) and its own properties in order. A function value is opaque.
  A number is a real: no declaration depends on which number it is.
  \<open>VPromise x\<close> is a promise that resolves to \<open>x\<close>; \<open>VAsyncIterable xs\<close> is an
  asynchronous iterable that yields the chunks \<open>xs\<close>.
\<close>

datatype jsval =
    VUndefined
  | VNull
  | VBool bool
  | VNum real
  | VStr string
  | VArr "jsval list"
  | VObj "host_type list" "(string \<times> jsval) list"
  | VFun
  | VPromise jsval
  | VAsyncIterable "jsval list"

section \<open>Type expressions of the declaration file\<close>

text \<open>
  \<open>Req n t\<close> is the member or parameter \<^verbatim>\<open>n: t\<close>, \<open>Opt n t\<close> is \<^verbatim>\<open>n?: t\<close>.
  \<open>TObj ms idx\<close> is an object type with the members \<open>ms\<close> and, when \<open>idx = Some t\<close>,
  the index signature \<^verbatim>\<open>[key: string]: t\<close>. \<open>TFun ps r\<close> is a method or function type
  with the parameters \<open>ps\<close> and the result \<open>r\<close>.
\<close>

datatype ty =
    TString
  | TNumber
  | TBoolean
  | TAny
  | TVoid
  | TUndefined
  | TLit string
  | THost host_type
  | TArray ty
  | TUnion "ty list"
  | TInter ty ty
  | TObj "member list" "ty option"
  | TFun "member list" ty
  | TPromise ty
  | TAsyncIterable ty
and member =
    Req string ty
  | Opt string ty

fun member_name :: "member \<Rightarrow> string" where
  "member_name (Req n t) = n"
| "member_name (Opt n t) = n"

fun is_optional :: "member \<Rightarrow> bool" where
  "is_optional (Req n t) = False"
| "is_optional (Opt n t) = True"

section \<open>Structural compatibility of a value with a type\<close>

text \<open>
  A value is compatible with an object type when every required member is present with
  a compatible value and every optional member is absent, \<^verbatim>\<open>undefined\<close> or
  compatible; properties the type does not declare are not looked at, except by an
  index signature, which constrains every property. A union accepts what one of its
  alternatives accepts, an intersection what both sides accept. Of a function only
  that it is callable can be seen from the value. The compiler's additional checks on
  fresh object literals (excess properties) are not part of compatibility.
\<close>

fun is_string :: "jsval \<Rightarrow> bool" where
  "is_string (VStr s) = True"
| "is_string v = False"

fun is_number :: "jsval \<Rightarrow> bool" where
  "is_number (VNum x) = True"
| "is_number v = False"

fun is_boolean :: "jsval \<Rightarrow> bool" where
  "is_boolean (VBool b) = True"
| "is_boolean v = False"

fun instance_of :: "host_type \<Rightarrow> jsval \<Rightarrow> bool" where
  "instance_of h (VObj hs ps) = (h \<in> set hs)"
| "instance_of h v = False"

fun properties :: "jsval \<Rightarrow> (string \<times> jsval) list option" where
  "properties (VObj hs ps) = Some ps"
| "properties v = None"

fun elements :: "jsval \<Rightarrow> jsval list option" where
  "elements (VArr vs) = Some vs"
| "elements v = None"

fun resolved :: "jsval \<Rightarrow> jsval option" where
  "resolved (VPromise x) = Some x"
| "resolved v = None"

fun chunks :: "jsval \<Rightarrow> jsval list option" where
  "chunks (VAsyncIterable xs) = Some xs"
| "chunks v = None"

fun conforms :: "ty \<Rightarrow> jsval \<Rightarrow> bool"
  and conforms_any :: "ty list \<Rightarrow> jsval \<Rightarrow> bool"
  and conforms_members :: "member list \<Rightarrow> (string \<times> jsval) list \<Rightarrow> bool"
where
  "conforms TString v = is_string v"
| "conforms TNumber v = is_number v"
| "conforms TBoolean v = is_boolean v"
| "conforms TAny v = True"
| "conforms TVoid v = (v = VUndefined)"
| "conforms TUndefined v = (v = VUndefined)"
| "conforms (TLit s) v = (v = VStr s)"
| "conforms (THost h) v = instance_of h v"
| "conforms (TArray t) v =
     (case elements v of None \<Rightarrow> False | Some vs \<Rightarrow> list_all (conforms t) vs)"
| "conforms (TUnion ts) v = conforms_any ts v"
| "conforms (TInter a b) v = (conforms a v \<and> conforms b v)"
| "conforms (TObj ms None) v =
     (case properties v of None \<Rightarrow> False | Some ps \<Rightarrow> conforms_members ms ps)"
| "conforms (TObj ms (Some t)) v =
     (case properties v of None \<Rightarrow> False
      | Some ps \<Rightarrow> conforms_members ms ps \<and> list_all (conforms t) (map snd ps))"
| "conforms (TFun ps r) v = (v = VFun)"
| "conforms (TPromise t) v =
     (case resolved v of None \<Rightarrow> False | Some x \<Rightarrow> conforms t x)"
| "conforms (TAsyncIterable t) v =
     (case chunks v of None \<Rightarrow> False | Some xs \<Rightarrow> list_all (conforms t) xs)"
| "conforms_any [] v = False"
| "conforms_any (t # ts) v = (conforms t v \<or> conforms_any ts v)"
| "conforms_members [] ps = True"
| "conforms_members (Req n t # ms) ps =
     ((case map_of ps n of None \<Rightarrow> False | Some x \<Rightarrow> conforms t x)
      \<and> conforms_members ms ps)"
| "conforms_members (Opt n t # ms) ps =
     ((case map_of ps n of None \<Rightarrow> True | Some x \<Rightarrow> x = VUndefined \<or> conforms t x)
      \<and> conforms_members ms ps)"

text \<open>
  A call site: the arguments given, in order, against the parameters of a method.
  A required parameter needs a compatible argument; an optional one may be left out
  (then so are all after it) or be \<^verbatim>\<open>undefined\<close>; more arguments than parameters
  are refused.
\<close>

fun accepts :: "member list \<Rightarrow> jsval list \<Rightarrow> bool" where
  "accepts [] [] = True"
| "accepts [] (a # as) = False"
| "accepts (Req n t # ps) [] = False"
| "accepts (Opt n t # ps) [] = accepts ps []"
| "accepts (Req n t # ps) (a # as) = (conforms t a \<and> accepts ps as)"
| "accepts (Opt n t # ps) (a # as) = ((a = VUndefined \<or> conforms t a) \<and> accepts ps as)"

text \<open>Reading the declaration of a member, and of a method's parameters and result.\<close>

fun members :: "ty \<Rightarrow> member list" where
  "members (TObj ms idx) = ms"
| "members (TInter a b) = members a @ members b"
| "members t = []"

definition find_member :: "ty \<Rightarrow> string \<Rightarrow> member option" where
  "find_member t n = find (\<lambda>m. member_name m = n) (members t)"

fun params :: "member option \<Rightarrow> member list" where
  "params (Some (Req n (TFun ps r))) = ps"
| "params (Some (Opt n (TFun ps r))) = ps"
| "params m = []"

fun returns :: "member option \<Rightarrow> ty option" where
  "returns (Some (Req n (TFun ps r))) = Some r"
| "returns (Some (Opt n (TFun ps r))) = Some r"
| "returns m = None"

text \<open>
  The type of the expression \<^verbatim>\<open>x.n\<close> for \<open>x\<close> of the type \<open>t\<close>, under strict
  null checks; \<open>None\<close> when the compiler refuses the access. A required member reads
  at its declared type, an optional one at that type or \<^verbatim>\<open>undefined\<close>. An
  intersection offers the members of both sides. A union offers a member only if every
  alternative does, so nothing can be read from a value that may be
  \<^verbatim>\<open>undefined\<close>. The members that the platform gives to strings, numbers and
  host objects are not declared by the package and are not offered here.
\<close>

fun read_type :: "member \<Rightarrow> ty" where
  "read_type (Req n t) = t"
| "read_type (Opt n t) = TUnion [t, TUndefined]"

fun read_member :: "ty \<Rightarrow> string \<Rightarrow> ty option"
  and read_member_all :: "ty list \<Rightarrow> string \<Rightarrow> ty list option"
where
  "read_member (TObj ms idx) n =
     (case find (\<lambda>m. member_name m = n) ms of
        Some m \<Rightarrow> Some (read_type m)
      | None \<Rightarrow> idx)"
| "read_member (TInter a b) n =
     (case read_member a n of Some t \<Rightarrow> Some t | None \<Rightarrow> read_member b n)"
| "read_member (TUnion ts) n =
     (if ts = [] then None else map_option TUnion (read_member_all ts n))"
| "read_member TAny n = Some TAny"
| "read_member TString n = None"
| "read_member TNumber n = None"
| "read_member TBoolean n = None"
| "read_member TVoid n = None"
| "read_member TUndefined n = None"
| "read_member (TLit s) n = None"
| "read_member (THost h) n = None"
| "read_member (TArray t) n = None"
| "read_member (TFun ps r) n = None"
| "read_member (TPromise t) n = None"
| "read_member (TAsyncIterable t) n = None"
| "read_member_all [] n = Some []"
| "read_member_all (t # ts) n =
     (case read_member t n of
        None \<Rightarrow> None
      | Some u \<Rightarrow> (case read_member_all ts n of None \<Rightarrow> None | Some us \<Rightarrow> Some (u # us)))"

text \<open>
  The type of the call \<^verbatim>\<open>x.m(args)\<close> for \<open>x\<close> of the type \<open>t\<close>: the result of
  the method when \<open>m\<close> can be read from \<open>t\<close>, is a function and accepts the
  arguments; \<open>None\<close> when the compiler refuses the call.
\<close>

fun apply_type :: "ty option \<Rightarrow> jsval list \<Rightarrow> ty option" where
  "apply_type (Some (TFun ps r)) args = (if accepts ps args then Some r else None)"
| "apply_type f args = None"

definition call_type :: "ty \<Rightarrow> string \<Rightarrow> jsval list \<Rightarrow> ty option" where
  "call_type t m args = apply_type (read_member t m) args"

text \<open>
  What a test for presence (\<^verbatim>\<open>if (x) ...\<close>) leaves of a type: the alternative
  \<^verbatim>\<open>undefined\<close> is removed from a union.
\<close>

fun narrow_defined :: "ty \<Rightarrow> ty" where
  "narrow_defined (TUnion ts) =
     (case filter (\<lambda>t. t \<noteq> TUndefined) ts of [t] \<Rightarrow> t | us \<Rightarrow> TUnion us)"
| "narrow_defined t = t"

text \<open>
  Every value of the type is an instance of the host type \<open>h\<close>: the type is \<open>h\<close>,
  an intersection with such a type, or a union of such types.
\<close>

fun requires_host :: "host_type \<Rightarrow> ty \<Rightarrow> bool"
  and requires_host_all :: "host_type \<Rightarrow> ty list \<Rightarrow> bool"
where
  "requires_host h (THost g) = (g = h)"
| "requires_host h (TInter a b) = (requires_host h a \<or> requires_host h b)"
| "requires_host h (TUnion ts) = (ts \<noteq> [] \<and> requires_host_all h ts)"
| "requires_host h TString = False"
| "requires_host h TNumber = False"
| "requires_host h TBoolean = False"
| "requires_host h TAny = False"
| "requires_host h TVoid = False"
| "requires_host h TUndefined = False"
| "requires_host h (TLit s) = False"
| "requires_host h (TArray t) = False"
| "requires_host h (TObj ms idx) = False"
| "requires_host h (TFun ps r) = False"
| "requires_host h (TPromise t) = False"
| "requires_host h (TAsyncIterable t) = False"
| "requires_host_all h [] = True"
| "requires_host_all h (t # ts) = (requires_host h t \<and> requires_host_all h ts)"

section \<open>The declarations of \<^verbatim>\<open>prompt-api.ts\<close>\<close>

definition LanguageModelOptions :: ty where
  "LanguageModelOptions = TObj
     [ Opt ''model'' TString,
       Opt ''temperature'' TNumber,
       Opt ''maxTokens'' TNumber,
       Opt ''topP'' TNumber,
       Opt ''stream'' TBoolean,
       Opt ''signal'' (THost AbortSignal) ] None"

definition image_value :: ty where
  "image_value = TUnion
     [ THost Blob, THost ImageData, THost ImageBitmap, THost VideoFrame,
       THost OffscreenCanvas, THost HTMLImageElement, THost SVGImageElement,
       THost HTMLCanvasElement, THost HTMLVideoElement, THost BufferSource,
       THost ArrayBuffer ]"

definition audio_value :: ty where
  "audio_value = TUnion [ THost Blob, THost AudioBuffer, THost BufferSource ]"

definition PromptMessageContent :: ty where
  "PromptMessageContent = TUnion
     [ TObj [ Req ''type'' (TLit ''text''), Req ''value'' TString ] None,
       TObj [ Req ''type'' (TLit ''image''), Req ''value'' image_value ] None,
       TObj [ Req ''type'' (TLit ''audio''), Req ''value'' audio_value ] None ]"

definition PromptResponseConstraintProperty :: ty where
  "PromptResponseConstraintProperty = TObj
     [ Req ''type'' TString,
       Opt ''description'' TString ] (Some TAny)"

definition PromptResponseConstraint :: ty where
  "PromptResponseConstraint = TObj
     [ Req ''type'' TString,
       Req ''required'' (TArray TString),
       Req ''additionalProperties'' TBoolean,
       Req ''properties'' (TObj [] (Some PromptResponseConstraintProperty)) ] None"

definition PromptPayloadOptions :: ty where
  "PromptPayloadOptions = TObj
     [ Req ''responseConstraint'' PromptResponseConstraint,
       Req ''omitResponseConstraintInput'' TBoolean ] None"

definition ExpandedPromptPayload :: ty where
  "ExpandedPromptPayload = TObj
     [ Req ''role'' (TUnion [ TLit ''system'', TLit ''user'', TLit ''assistant'' ]),
       Req ''content'' PromptMessageContent ] None"

definition PromptPayload :: ty where
  "PromptPayload = TUnion [ TArray ExpandedPromptPayload, TString ]"

definition ExpectedInputOrOutput :: ty where
  "ExpectedInputOrOutput = TObj
     [ Req ''type'' (TUnion [ TLit ''text'', TLit ''image'', TLit ''audio'' ]),
       Opt ''languages'' (TArray TString) ] None"

definition schema_type :: ty where
  "schema_type = TUnion
     [ TLit ''string'', TLit ''number'', TLit ''boolean'', TLit ''array'', TLit ''object'' ]"

definition LanguageModelTool :: ty where
  "LanguageModelTool = TObj
     [ Req ''name'' TString,
       Req ''description'' TString,
       Req ''inputSchema'' (TObj
         [ Req ''type'' schema_type,
           Req ''properties'' (TObj [] (Some (TObj
             [ Req ''type'' schema_type,
               Req ''description'' TString ] None))),
           Req ''required'' (TArray TString) ] None),
       Req ''execute'' (TFun [ Req ''input'' TAny ] (TUnion [ TPromise TAny, TAny ])) ] None"

definition CreateOptions :: ty where
  "CreateOptions = TObj
     [ Opt ''expectedInputs'' (TArray ExpectedInputOrOutput),
       Opt ''expectedOutputs'' (TArray ExpectedInputOrOutput),
       Opt ''initialPrompts'' (TArray PromptPayload),
       Opt ''tools'' (TArray LanguageModelTool),
       Opt ''temperature'' TNumber,
       Opt ''topK'' TNumber ] None"

definition Availability :: ty where
  "Availability = TUnion
     [ TLit ''available'', TLit ''downloading'', TLit ''downloadable'',
       TLit ''unavailable'', TLit ''unknown'' ]"

definition LanguageModelPromptResponse :: ty where
  "LanguageModelPromptResponse = TString"

definition event_callback :: ty where
  "event_callback = TFun [ Req ''event'' TAny ] TVoid"

definition LanguageModelSession :: ty where
  "LanguageModelSession = TObj
     [ Req ''prompt'' (TFun
         [ Req ''payload'' PromptPayload, Opt ''options'' PromptPayloadOptions ]
         (TPromise LanguageModelPromptResponse)),
       Req ''promptStreaming'' (TFun
         [ Req ''payload'' PromptPayload, Opt ''options'' PromptPayloadOptions ]
         (TAsyncIterable LanguageModelPromptResponse)),
       Req ''measureInputUsage'' (TFun
         [ Req ''payload'' PromptPayload, Opt ''options'' PromptPayloadOptions ]
         (TPromise TNumber)),
       Req ''topK'' TNumber,
       Req ''temperature'' TNumber,
       Req ''maxTokens'' TNumber,
       Req ''inputQuota'' TNumber,
       Req ''inputUsage'' TNumber,
       Req ''addEventListener'' (TFun
         [ Req ''event'' TString, Req ''callback'' event_callback ] TVoid),
       Req ''removeEventListener'' (TFun
         [ Req ''event'' TString, Req ''callback'' event_callback ] TVoid),
       Req ''dispatchEvent'' (TFun
         [ Req ''event'' TString, Req ''data'' TAny ] TVoid) ] None"

definition LanguageModelType :: ty where
  "LanguageModelType = TObj
     [ Req ''create'' (TFun [ Opt ''options'' CreateOptions ] (TPromise LanguageModelSession)),
       Req ''availability'' (TFun [] (TPromise Availability)) ] None"

definition QuotaExceededError :: ty where
  "QuotaExceededError = TInter (THost DOMException)
     (TObj [ Req ''requested'' TNumber, Req ''quota'' TNumber ] None)"

text \<open>
  The global augmentation \<^verbatim>\<open>declare global { interface Window { ... } }\<close> merges
  with the platform's declaration of \<^verbatim>\<open>Window\<close>: a window is an instance of the
  platform's interface that also has the member declared here.
\<close>

definition Window :: ty where
  "Window = TInter (THost HostWindow)
     (TObj [ Opt ''LanguageModel'' LanguageModelType ] None)"

text \<open>Every type the file exports, by name, in the order of the file.\<close>

definition exported :: "(string \<times> ty) list" where
  "exported =
     [ (''LanguageModelOptions'', LanguageModelOptions),
       (''PromptMessageContent'', PromptMessageContent),
       (''PromptResponseConstraintProperty'', PromptResponseConstraintProperty),
       (''PromptResponseConstraint'', PromptResponseConstraint),
       (''PromptPayloadOptions'', PromptPayloadOptions),
       (''PromptPayload'', PromptPayload),
       (''ExpandedPromptPayload'', ExpandedPromptPayload),
       (''ExpectedInputOrOutput'', ExpectedInputOrOutput),
       (''CreateOptions'', CreateOptions),
       (''LanguageModelTool'', LanguageModelTool),
       (''Availability'', Availability),
       (''LanguageModelType'', LanguageModelType),
       (''LanguageModelSession'', LanguageModelSession),
       (''LanguageModelPromptResponse'', LanguageModelPromptResponse),
       (''QuotaExceededError'', QuotaExceededError) ]"

definition error_shapes :: "string list" where
  "error_shapes = map fst (filter (\<lambda>d. requires_host DOMException (snd d)) exported)"

section \<open>Example values of the usage file and the README\<close>

text \<open>The content item \<^verbatim>\<open>{ type: 'text', value: 'hi' }\<close>.\<close>

definition text_hi :: jsval where
  "text_hi = VObj [] [ (''type'', VStr ''text''), (''value'', VStr ''hi'') ]"

text \<open>The response constraint of \<^verbatim>\<open>exampleWithConstraints\<close>.\<close>

definition person_constraint :: jsval where
  "person_constraint = VObj []
     [ (''type'', VStr ''object''),
       (''required'', VArr [ VStr ''name'', VStr ''age'' ]),
       (''additionalProperties'', VBool False),
       (''properties'', VObj []
          [ (''name'', VObj []
               [ (''type'', VStr ''string''), (''description'', VStr ''Person name'') ]),
            (''age'', VObj []
               [ (''type'', VStr ''number''), (''description'', VStr ''Person age'') ]) ]) ]"

text \<open>The same constraint with the member \<^verbatim>\<open>required\<close> left out.\<close>

definition person_constraint_no_required :: jsval where
  "person_constraint_no_required = VObj []
     [ (''type'', VStr ''object''),
       (''additionalProperties'', VBool False),
       (''properties'', VObj []
          [ (''name'', VObj [] [ (''type'', VStr ''string'') ]) ]) ]"

text \<open>
  An options value of the request-configuration shape:
  \<^verbatim>\<open>{ temperature: 0.5 }\<close>.
\<close>

definition temperature_only :: jsval where
  "temperature_only = VObj [] [ (''temperature'', VNum (1 / 2)) ]"

text \<open>The parameters and the result of a method of the session, by name.\<close>

definition session_params :: "string \<Rightarrow> member list" where
  "session_params m = params (find_member LanguageModelSession m)"

definition session_returns :: "string \<Rightarrow> ty option" where
  "session_returns m = returns (find_member LanguageModelSession m)"

section \<open>Reading values\<close>

lemma is_string_iff: "is_string v = (\<exists>s. v = VStr s)"
  by (cases v) simp_all

lemma is_number_iff: "is_number v = (\<exists>x. v = VNum x)"
  by (cases v) simp_all

lemma is_boolean_iff: "is_boolean v = (\<exists>b. v = VBool b)"
  by (cases v) simp_all

lemma elements_iff: "(elements v = Some xs) = (v = VArr xs)"
  by (cases v) auto

lemma resolved_iff: "(resolved v = Some x) = (v = VPromise x)"
  by (cases v) auto

lemma chunks_iff: "(chunks v = Some xs) = (v = VAsyncIterable xs)"
  by (cases v) auto

lemma conforms_TString: "conforms TString = is_string"
  by (rule ext) simp

lemma session_params_interaction:
  "session_params ''prompt'' =
     [ Req ''payload'' PromptPayload, Opt ''options'' PromptPayloadOptions ]"
  "session_params ''promptStreaming'' =
     [ Req ''payload'' PromptPayload, Opt ''options'' PromptPayloadOptions ]"
  "session_params ''measureInputUsage'' =
     [ Req ''payload'' PromptPayload, Opt ''options'' PromptPayloadOptions ]"
  by (simp_all add: session_params_def LanguageModelSession_def find_member_def)

lemma accepts_payload_options:
  "accepts [ Req n p, Opt m q ] args =
     ((\<exists>a. args = [a] \<and> conforms p a) \<or>
      (\<exists>a b. args = [a, b] \<and> conforms p a \<and> (b = VUndefined \<or> conforms q b)))"
proof (cases args)
  case Nil
  then show ?thesis by simp
next
  case (Cons a as)
  note outer = Cons
  show ?thesis
  proof (cases as)
    case Nil
    with outer show ?thesis by simp
  next
    case (Cons b bs)
    with outer show ?thesis by (cases bs) auto
  qed
qed

lemma person_constraint_conforms:
  "conforms PromptResponseConstraint person_constraint"
  by (simp add: PromptResponseConstraint_def person_constraint_def
      PromptResponseConstraintProperty_def)

lemma conforms_any_hosts:
  "conforms_any (map THost ks) x =
     (\<exists>gs qs. x = VObj gs qs \<and> (\<exists>h \<in> set ks. h \<in> set gs))"
proof (induction ks)
  case Nil
  show ?case by simp
next
  case (Cons k ks)
  then show ?case by (cases x) auto
qed

section \<open>Properties\<close>

text \<open>
  C1. The three session-interaction operations \<^verbatim>\<open>prompt\<close>,
  \<^verbatim>\<open>promptStreaming\<close> and \<^verbatim>\<open>measureInputUsage\<close> declare the same
  parameters: a required payload, which is a string or an array of structured
  messages, and an optional options pair. A call is accepted exactly with one
  compatible payload, followed or not by options that are \<^verbatim>\<open>undefined\<close> or of the
  options shape. \<^verbatim>\<open>prompt\<close> returns a promise of a string,
  \<^verbatim>\<open>promptStreaming\<close> an asynchronous iterable of strings, and
  \<^verbatim>\<open>measureInputUsage\<close> a promise of a number.
\<close>

theorem session_interaction_contract:
  "session_params ''prompt'' =
     [ Req ''payload'' PromptPayload, Opt ''options'' PromptPayloadOptions ]
   \<and> session_params ''promptStreaming'' = session_params ''prompt''
   \<and> session_params ''measureInputUsage'' = session_params ''prompt''
   \<and> conforms PromptPayload v =
       (is_string v \<or> (\<exists>ms. v = VArr ms \<and> list_all (conforms ExpandedPromptPayload) ms))
   \<and> accepts (session_params ''prompt'') args =
       ((\<exists>p. args = [p] \<and> conforms PromptPayload p) \<or>
        (\<exists>p opts. args = [p, opts] \<and> conforms PromptPayload p \<and>
           (opts = VUndefined \<or> conforms PromptPayloadOptions opts)))
   \<and> session_returns ''prompt'' = Some (TPromise LanguageModelPromptResponse)
   \<and> session_returns ''promptStreaming'' = Some (TAsyncIterable LanguageModelPromptResponse)
   \<and> session_returns ''measureInputUsage'' = Some (TPromise TNumber)
   \<and> conforms (TPromise LanguageModelPromptResponse) r = (\<exists>s. r = VPromise (VStr s))
   \<and> conforms (TAsyncIterable LanguageModelPromptResponse) r =
       (\<exists>xs. r = VAsyncIterable xs \<and> list_all is_string xs)
   \<and> conforms (TPromise TNumber) r = (\<exists>n. r = VPromise (VNum n))"
proof -
  have same: "session_params ''promptStreaming'' = session_params ''prompt''"
    "session_params ''measureInputUsage'' = session_params ''prompt''"
    by (simp_all add: session_params_interaction)
  have payload: "conforms PromptPayload v =
      (is_string v \<or> (\<exists>ms. v = VArr ms \<and> list_all (conforms ExpandedPromptPayload) ms))"
    by (auto simp: PromptPayload_def elements_iff split: option.splits)
  have call: "accepts (session_params ''prompt'') args =
      ((\<exists>p. args = [p] \<and> conforms PromptPayload p) \<or>
       (\<exists>p opts. args = [p, opts] \<and> conforms PromptPayload p \<and>
          (opts = VUndefined \<or> conforms PromptPayloadOptions opts)))"
    unfolding session_params_interaction by (rule accepts_payload_options)
  have results: "session_returns ''prompt'' = Some (TPromise LanguageModelPromptResponse)"
    "session_returns ''promptStreaming'' = Some (TAsyncIterable LanguageModelPromptResponse)"
    "session_returns ''measureInputUsage'' = Some (TPromise TNumber)"
    by (simp_all add: session_returns_def LanguageModelSession_def find_member_def)
  have full: "conforms (TPromise LanguageModelPromptResponse) r = (\<exists>s. r = VPromise (VStr s))"
    by (auto simp: LanguageModelPromptResponse_def resolved_iff is_string_iff
        split: option.splits)
  have partial: "conforms (TAsyncIterable LanguageModelPromptResponse) r =
      (\<exists>xs. r = VAsyncIterable xs \<and> list_all is_string xs)"
    by (auto simp: LanguageModelPromptResponse_def conforms_TString chunks_iff
        split: option.splits)
  have count: "conforms (TPromise TNumber) r = (\<exists>n. r = VPromise (VNum n))"
    by (auto simp: resolved_iff is_number_iff split: option.splits)
  from same payload call results full partial count show ?thesis
    by (simp only: session_params_interaction(1) simp_thms)
qed

text \<open>
  C2. Of the exported types exactly one is an error shape, that is, a type all of whose
  values are platform exceptions: \<^verbatim>\<open>QuotaExceededError\<close>. A value has that
  type exactly when it is a \<^verbatim>\<open>DOMException\<close> with the numeric properties
  \<^verbatim>\<open>requested\<close> and \<^verbatim>\<open>quota\<close>. Such an exception with
  \<^verbatim>\<open>requested: 500, quota: 200\<close> matches; one without \<^verbatim>\<open>quota\<close> does not.
\<close>

theorem quota_exceeded_only_error_shape:
  "error_shapes = [ ''QuotaExceededError'' ]
   \<and> conforms QuotaExceededError v =
       (\<exists>hs ps x y. v = VObj hs ps \<and> DOMException \<in> set hs
          \<and> map_of ps ''requested'' = Some (VNum x) \<and> map_of ps ''quota'' = Some (VNum y))
   \<and> conforms QuotaExceededError
        (VObj [DOMException] [ (''requested'', VNum 500), (''quota'', VNum 200) ])
   \<and> \<not> conforms QuotaExceededError (VObj [DOMException] [ (''requested'', VNum 500) ])"
proof -
  have only: "error_shapes = [ ''QuotaExceededError'' ]"
    by (simp add: error_shapes_def exported_def LanguageModelOptions_def
        PromptMessageContent_def PromptResponseConstraintProperty_def
        PromptResponseConstraint_def PromptPayloadOptions_def PromptPayload_def
        ExpandedPromptPayload_def ExpectedInputOrOutput_def CreateOptions_def
        LanguageModelTool_def Availability_def LanguageModelType_def
        LanguageModelSession_def LanguageModelPromptResponse_def QuotaExceededError_def)
  have shape: "conforms QuotaExceededError v =
      (\<exists>hs ps x y. v = VObj hs ps \<and> DOMException \<in> set hs
         \<and> map_of ps ''requested'' = Some (VNum x) \<and> map_of ps ''quota'' = Some (VNum y))"
    by (cases v) (auto simp: QuotaExceededError_def is_number_iff split: option.splits)
  have yes: "conforms QuotaExceededError
      (VObj [DOMException] [ (''requested'', VNum 500), (''quota'', VNum 200) ])"
    by (simp add: QuotaExceededError_def)
  have no: "\<not> conforms QuotaExceededError (VObj [DOMException] [ (''requested'', VNum 500) ])"
    by (simp add: QuotaExceededError_def)
  from only shape yes no show ?thesis by (simp only: simp_thms)
qed

text \<open>
  C3. The availability status is a closed enumeration: a value has the type
  \<^verbatim>\<open>Availability\<close> exactly when it is one of the five strings
  available, downloading, downloadable, unavailable, unknown.
\<close>

theorem availability_closed_enumeration:
  "conforms Availability v =
     (v = VStr ''available'' \<or> v = VStr ''downloading'' \<or> v = VStr ''downloadable''
      \<or> v = VStr ''unavailable'' \<or> v = VStr ''unknown'')"
  by (auto simp: Availability_def)

text \<open>
  C4. A structured message is an object whose \<^verbatim>\<open>role\<close> is one of the strings
  system, user, assistant and whose \<^verbatim>\<open>content\<close> is a content item. The message
  \<^verbatim>\<open>{ role: r, content: { type: 'text', value: 'hi' } }\<close> is valid exactly for
  these three values of \<open>r\<close>: it is for user, and it is not for narrator.
\<close>

theorem message_role_closed_set:
  "conforms ExpandedPromptPayload v =
     (\<exists>hs ps. v = VObj hs ps
        \<and> (map_of ps ''role'' = Some (VStr ''system'')
             \<or> map_of ps ''role'' = Some (VStr ''user'')
             \<or> map_of ps ''role'' = Some (VStr ''assistant''))
        \<and> (\<exists>c. map_of ps ''content'' = Some c \<and> conforms PromptMessageContent c))
   \<and> conforms ExpandedPromptPayload (VObj [] [ (''role'', r), (''content'', text_hi) ]) =
       (r = VStr ''system'' \<or> r = VStr ''user'' \<or> r = VStr ''assistant'')
   \<and> conforms ExpandedPromptPayload
        (VObj [] [ (''role'', VStr ''user''), (''content'', text_hi) ])
   \<and> \<not> conforms ExpandedPromptPayload
        (VObj [] [ (''role'', VStr ''narrator''), (''content'', text_hi) ])"
proof -
  have content: "conforms PromptMessageContent text_hi"
    by (simp add: PromptMessageContent_def text_hi_def)
  have shape: "conforms ExpandedPromptPayload v =
      (\<exists>hs ps. v = VObj hs ps
         \<and> (map_of ps ''role'' = Some (VStr ''system'')
              \<or> map_of ps ''role'' = Some (VStr ''user'')
              \<or> map_of ps ''role'' = Some (VStr ''assistant''))
         \<and> (\<exists>c. map_of ps ''content'' = Some c \<and> conforms PromptMessageContent c))"
    by (cases v) (auto simp: ExpandedPromptPayload_def split: option.splits)
  have role: "conforms ExpandedPromptPayload (VObj [] [ (''role'', x), (''content'', text_hi) ]) =
      (x = VStr ''system'' \<or> x = VStr ''user'' \<or> x = VStr ''assistant'')" for x
    using content by (simp add: ExpandedPromptPayload_def)
  have user: "conforms ExpandedPromptPayload
      (VObj [] [ (''role'', VStr ''user''), (''content'', text_hi) ])"
    by (simp add: role)
  have narrator: "\<not> conforms ExpandedPromptPayload
      (VObj [] [ (''role'', VStr ''narrator''), (''content'', text_hi) ])"
    by (simp add: role)
  from shape role [of r] user narrator show ?thesis by (simp only: simp_thms)
qed

text \<open>
  C5. A content item is an object tagged by \<^verbatim>\<open>type\<close> with one of three kinds.
  With the tag text the \<^verbatim>\<open>value\<close> is a string. With the tag image it is an
  instance of one of the eleven host types Blob, ImageData, ImageBitmap, VideoFrame,
  OffscreenCanvas, HTMLImageElement, SVGImageElement, HTMLCanvasElement,
  HTMLVideoElement, BufferSource, ArrayBuffer. With the tag audio it is an instance of
  Blob, AudioBuffer or BufferSource. Nothing else is a content item.
\<close>

theorem prompt_content_tagged_union:
  "conforms PromptMessageContent v =
     (\<exists>hs ps. v = VObj hs ps \<and>
        (map_of ps ''type'' = Some (VStr ''text'')
           \<and> (\<exists>s. map_of ps ''value'' = Some (VStr s))
         \<or> map_of ps ''type'' = Some (VStr ''image'')
           \<and> (\<exists>gs qs. map_of ps ''value'' = Some (VObj gs qs)
                \<and> (\<exists>h \<in> set [ Blob, ImageData, ImageBitmap, VideoFrame, OffscreenCanvas,
                       HTMLImageElement, SVGImageElement, HTMLCanvasElement,
                       HTMLVideoElement, BufferSource, ArrayBuffer ]. h \<in> set gs))
         \<or> map_of ps ''type'' = Some (VStr ''audio'')
           \<and> (\<exists>gs qs. map_of ps ''value'' = Some (VObj gs qs)
                \<and> (\<exists>h \<in> set [ Blob, AudioBuffer, BufferSource ]. h \<in> set gs))))"
proof -
  have image: "conforms image_value x =
      (\<exists>gs qs. x = VObj gs qs
         \<and> (\<exists>h \<in> set [ Blob, ImageData, ImageBitmap, VideoFrame, OffscreenCanvas,
                HTMLImageElement, SVGImageElement, HTMLCanvasElement,
                HTMLVideoElement, BufferSource, ArrayBuffer ]. h \<in> set gs))" for x
  proof -
    have hosts: "image_value = TUnion (map THost [ Blob, ImageData, ImageBitmap, VideoFrame,
        OffscreenCanvas, HTMLImageElement, SVGImageElement, HTMLCanvasElement,
        HTMLVideoElement, BufferSource, ArrayBuffer ])"
      by (simp add: image_value_def)
    show ?thesis
      by (simp only: hosts conforms.simps conforms_any_hosts)
  qed
  have audio: "conforms audio_value x =
      (\<exists>gs qs. x = VObj gs qs
         \<and> (\<exists>h \<in> set [ Blob, AudioBuffer, BufferSource ]. h \<in> set gs))" for x
  proof -
    have hosts: "audio_value = TUnion (map THost [ Blob, AudioBuffer, BufferSource ])"
      by (simp add: audio_value_def)
    show ?thesis
      by (simp only: hosts conforms.simps conforms_any_hosts)
  qed
  have tagged: "conforms PromptMessageContent v =
      (\<exists>hs ps. v = VObj hs ps \<and>
         (map_of ps ''type'' = Some (VStr ''text'')
            \<and> (\<exists>s. map_of ps ''value'' = Some (VStr s))
          \<or> map_of ps ''type'' = Some (VStr ''image'')
            \<and> (\<exists>x. map_of ps ''value'' = Some x \<and> conforms image_value x)
          \<or> map_of ps ''type'' = Some (VStr ''audio'')
            \<and> (\<exists>x. map_of ps ''value'' = Some x \<and> conforms audio_value x)))"
    by (cases v) (auto simp: PromptMessageContent_def is_string_iff split: option.splits)
  have unwrap: "(\<exists>x. m = Some x \<and> (\<exists>gs qs. x = VObj gs qs \<and> P gs)) =
      (\<exists>gs qs. m = Some (VObj gs qs) \<and> P gs)" for m :: "jsval option" and P
    by auto
  show ?thesis
    by (simp only: tagged image audio unwrap)
qed

text \<open>
  C6. Every member of the session-creation bundle \<^verbatim>\<open>CreateOptions\<close> is optional,
  so the empty object is a valid bundle. \<^verbatim>\<open>create\<close> takes the bundle as its only,
  optional, parameter: it is called with no argument, with \<^verbatim>\<open>undefined\<close> or with
  a bundle, and returns a promise of a session.
\<close>

theorem create_options_all_optional:
  "list_all is_optional (members CreateOptions)
   \<and> map member_name (members CreateOptions) =
       [ ''expectedInputs'', ''expectedOutputs'', ''initialPrompts'', ''tools'',
         ''temperature'', ''topK'' ]
   \<and> conforms CreateOptions (VObj [] [])
   \<and> find_member LanguageModelType ''create'' =
       Some (Req ''create''
         (TFun [ Opt ''options'' CreateOptions ] (TPromise LanguageModelSession)))
   \<and> accepts (params (find_member LanguageModelType ''create'')) args =
       (args = [] \<or> (\<exists>a. args = [a] \<and> (a = VUndefined \<or> conforms CreateOptions a)))
   \<and> accepts (params (find_member LanguageModelType ''create'')) [ VObj [] [] ]"
proof -
  have optional: "list_all is_optional (members CreateOptions)"
    "map member_name (members CreateOptions) =
       [ ''expectedInputs'', ''expectedOutputs'', ''initialPrompts'', ''tools'',
         ''temperature'', ''topK'' ]"
    "conforms CreateOptions (VObj [] [])"
    by (simp_all add: CreateOptions_def)
  have create: "find_member LanguageModelType ''create'' =
      Some (Req ''create''
        (TFun [ Opt ''options'' CreateOptions ] (TPromise LanguageModelSession)))"
    by (simp add: LanguageModelType_def find_member_def)
  have call: "accepts [ Opt ''options'' CreateOptions ] xs =
      (xs = [] \<or> (\<exists>a. xs = [a] \<and> (a = VUndefined \<or> conforms CreateOptions a)))" for xs
  proof (cases xs)
    case Nil
    then show ?thesis by simp
  next
    case (Cons a as)
    then show ?thesis by (cases as) auto
  qed
  have empty: "accepts [ Opt ''options'' CreateOptions ] [ VObj [] [] ]"
    using optional(3) by (simp add: call)
  from optional create call [of args] empty show ?thesis
    by (simp only: params.simps simp_thms)
qed

text \<open>
  C7. The four members \<^verbatim>\<open>type\<close>, \<^verbatim>\<open>required\<close>,
  \<^verbatim>\<open>additionalProperties\<close> and \<^verbatim>\<open>properties\<close> of a response constraint
  are mandatory: an object that lacks one of them is not a response constraint.
\<close>

theorem response_constraint_mandatory_fields:
  assumes "n \<in> set [ ''type'', ''required'', ''additionalProperties'', ''properties'' ]"
    and "map_of ps n = None"
  shows "\<not> conforms PromptResponseConstraint (VObj hs ps)"
  using assms by (auto simp: PromptResponseConstraint_def)

text \<open>
  The constraint of the usage example is valid; without its member
  \<^verbatim>\<open>required\<close> it is refused (C7 at \<open>n = ''required''\<close>).
\<close>

theorem response_constraint_mandatory_fields_witness:
  "conforms PromptResponseConstraint person_constraint
   \<and> \<not> conforms PromptResponseConstraint person_constraint_no_required"
proof -
  have "\<not> conforms PromptResponseConstraint (VObj []
      [ (''type'', VStr ''object''),
        (''additionalProperties'', VBool False),
        (''properties'', VObj []
           [ (''name'', VObj [] [ (''type'', VStr ''string'') ]) ]) ])"
    by (rule response_constraint_mandatory_fields [of "''required''"]) simp_all
  then show ?thesis
    by (simp add: person_constraint_conforms person_constraint_no_required_def)
qed

text \<open>
  C8 does not hold as stated: a value of the request-configuration shape
  \<^verbatim>\<open>LanguageModelOptions\<close>, here \<^verbatim>\<open>{ temperature: 0.5 }\<close>, is not accepted as
  the options of \<^verbatim>\<open>prompt\<close>, \<^verbatim>\<open>promptStreaming\<close> or
  \<^verbatim>\<open>measureInputUsage\<close>.
\<close>

theorem request_options_refused_by_session_calls:
  "conforms LanguageModelOptions temperature_only
   \<and> \<not> accepts (session_params ''prompt'') [ VStr ''hi'', temperature_only ]
   \<and> \<not> accepts (session_params ''promptStreaming'') [ VStr ''hi'', temperature_only ]
   \<and> \<not> accepts (session_params ''measureInputUsage'') [ VStr ''hi'', temperature_only ]"
  by (simp add: session_params_interaction LanguageModelOptions_def temperature_only_def
      PromptPayloadOptions_def)

text \<open>
  C8, amended. The request-configuration shape \<^verbatim>\<open>LanguageModelOptions\<close> declares
  exactly six members, all optional: model (string), temperature, maxTokens and topP
  (numbers), stream (boolean) and signal (an AbortSignal); the empty object has the
  shape. No per-request call of a session takes it: the options parameter of
  \<^verbatim>\<open>prompt\<close>, \<^verbatim>\<open>promptStreaming\<close> and \<^verbatim>\<open>measureInputUsage\<close> is the
  optional pair \<^verbatim>\<open>PromptPayloadOptions\<close>.
\<close>

theorem request_options_shape:
  "members LanguageModelOptions =
     [ Opt ''model'' TString, Opt ''temperature'' TNumber, Opt ''maxTokens'' TNumber,
       Opt ''topP'' TNumber, Opt ''stream'' TBoolean, Opt ''signal'' (THost AbortSignal) ]
   \<and> list_all is_optional (members LanguageModelOptions)
   \<and> conforms LanguageModelOptions (VObj [] [])
   \<and> session_params ''prompt'' =
       [ Req ''payload'' PromptPayload, Opt ''options'' PromptPayloadOptions ]
   \<and> session_params ''promptStreaming'' =
       [ Req ''payload'' PromptPayload, Opt ''options'' PromptPayloadOptions ]
   \<and> session_params ''measureInputUsage'' =
       [ Req ''payload'' PromptPayload, Opt ''options'' PromptPayloadOptions ]
   \<and> PromptPayloadOptions \<noteq> LanguageModelOptions
   \<and> accepts (session_params ''prompt'') [ p, opts ] =
       (conforms PromptPayload p \<and> (opts = VUndefined \<or> conforms PromptPayloadOptions opts))
   \<and> accepts (session_params ''promptStreaming'') [ p, opts ] =
       (conforms PromptPayload p \<and> (opts = VUndefined \<or> conforms PromptPayloadOptions opts))
   \<and> accepts (session_params ''measureInputUsage'') [ p, opts ] =
       (conforms PromptPayload p \<and> (opts = VUndefined \<or> conforms PromptPayloadOptions opts))"
proof -
  have six: "members LanguageModelOptions =
      [ Opt ''model'' TString, Opt ''temperature'' TNumber, Opt ''maxTokens'' TNumber,
        Opt ''topP'' TNumber, Opt ''stream'' TBoolean, Opt ''signal'' (THost AbortSignal) ]"
    by (simp add: LanguageModelOptions_def)
  have optional: "list_all is_optional (members LanguageModelOptions)"
    by (simp add: six)
  have empty: "conforms LanguageModelOptions (VObj [] [])"
    by (simp add: LanguageModelOptions_def)
  have other: "PromptPayloadOptions \<noteq> LanguageModelOptions"
    by (simp add: LanguageModelOptions_def PromptPayloadOptions_def)
  have call: "accepts [ Req ''payload'' PromptPayload, Opt ''options'' PromptPayloadOptions ]
      [ p, opts ] =
      (conforms PromptPayload p \<and> (opts = VUndefined \<or> conforms PromptPayloadOptions opts))"
    by (simp add: conj_commute)
  from six optional empty other call show ?thesis
    by (simp only: session_params_interaction simp_thms)
qed

text \<open>
  C9. The member \<^verbatim>\<open>LanguageModel\<close> of \<^verbatim>\<open>Window\<close> is declared optional. A
  window is an instance of the platform's \<^verbatim>\<open>Window\<close> whose property is absent,
  \<^verbatim>\<open>undefined\<close> or a capability object, so a window without it is valid. Reading
  the member has the type \<^verbatim>\<open>LanguageModelType | undefined\<close>, which holds
  \<^verbatim>\<open>undefined\<close>, a value that is not a capability object. A call of
  \<^verbatim>\<open>availability\<close> or \<^verbatim>\<open>create\<close> on what was read is refused, with any
  arguments; after a test for presence the type is \<^verbatim>\<open>LanguageModelType\<close> and both
  calls are accepted.
\<close>

theorem window_language_model_optional:
  "find_member Window ''LanguageModel'' = Some (Opt ''LanguageModel'' LanguageModelType)
   \<and> conforms Window v =
       (\<exists>hs ps. v = VObj hs ps \<and> HostWindow \<in> set hs
          \<and> (map_of ps ''LanguageModel'' = None
               \<or> map_of ps ''LanguageModel'' = Some VUndefined
               \<or> (\<exists>m. map_of ps ''LanguageModel'' = Some m \<and> conforms LanguageModelType m)))
   \<and> conforms Window (VObj [HostWindow] [])
   \<and> read_member Window ''LanguageModel'' = Some (TUnion [ LanguageModelType, TUndefined ])
   \<and> conforms (TUnion [ LanguageModelType, TUndefined ]) VUndefined
   \<and> \<not> conforms LanguageModelType VUndefined
   \<and> call_type (TUnion [ LanguageModelType, TUndefined ]) ''availability'' args = None
   \<and> call_type (TUnion [ LanguageModelType, TUndefined ]) ''create'' args = None
   \<and> narrow_defined (TUnion [ LanguageModelType, TUndefined ]) = LanguageModelType
   \<and> call_type LanguageModelType ''availability'' [] = Some (TPromise Availability)
   \<and> call_type LanguageModelType ''create'' [] = Some (TPromise LanguageModelSession)"
proof -
  have declared: "find_member Window ''LanguageModel'' =
      Some (Opt ''LanguageModel'' LanguageModelType)"
    by (simp add: Window_def find_member_def)
  have valid: "conforms Window v =
      (\<exists>hs ps. v = VObj hs ps \<and> HostWindow \<in> set hs
         \<and> (map_of ps ''LanguageModel'' = None
              \<or> map_of ps ''LanguageModel'' = Some VUndefined
              \<or> (\<exists>m. map_of ps ''LanguageModel'' = Some m \<and> conforms LanguageModelType m)))"
    by (cases v) (auto simp: Window_def split: option.splits)
  have absent: "conforms Window (VObj [HostWindow] [])"
    by (simp add: Window_def)
  have read: "read_member Window ''LanguageModel'' =
      Some (TUnion [ LanguageModelType, TUndefined ])"
    by (simp add: Window_def)
  have undefined: "conforms (TUnion [ LanguageModelType, TUndefined ]) VUndefined"
    "\<not> conforms LanguageModelType VUndefined"
    by (simp_all add: LanguageModelType_def)
  have refused: "call_type (TUnion [ LanguageModelType, TUndefined ]) m xs = None" for m xs
    by (simp add: call_type_def split: option.splits)
  have object: "LanguageModelType \<noteq> TUndefined"
    by (simp add: LanguageModelType_def)
  have narrowed: "narrow_defined (TUnion [ LanguageModelType, TUndefined ]) = LanguageModelType"
    using object by simp
  have calls: "call_type LanguageModelType ''availability'' [] = Some (TPromise Availability)"
    "call_type LanguageModelType ''create'' [] = Some (TPromise LanguageModelSession)"
    by (simp_all add: call_type_def LanguageModelType_def)
  from declared valid absent read undefined
    refused [of "''availability''" args] refused [of "''create''" args] narrowed calls
  show ?thesis
    by (simp only: simp_thms)
qed

text \<open>
  C10. Both members of the options pair \<^verbatim>\<open>PromptPayloadOptions\<close> are mandatory:
  a value has the shape exactly when it is an object with a valid
  \<^verbatim>\<open>responseConstraint\<close> and a boolean \<^verbatim>\<open>omitResponseConstraintInput\<close>. No
  valid options value lacks one of the two, and an options object given to
  \<^verbatim>\<open>prompt\<close> is accepted only if it has the shape.
\<close>

theorem prompt_options_both_mandatory:
  "conforms PromptPayloadOptions v =
     (\<exists>hs ps c b. v = VObj hs ps
        \<and> map_of ps ''responseConstraint'' = Some c \<and> conforms PromptResponseConstraint c
        \<and> map_of ps ''omitResponseConstraintInput'' = Some (VBool b))
   \<and> \<not> (\<exists>hs ps. conforms PromptPayloadOptions (VObj hs ps)
          \<and> (map_of ps ''responseConstraint'' = None
               \<or> map_of ps ''omitResponseConstraintInput'' = None))
   \<and> \<not> conforms PromptPayloadOptions (VObj [] [ (''responseConstraint'', person_constraint) ])
   \<and> \<not> conforms PromptPayloadOptions
        (VObj [] [ (''omitResponseConstraintInput'', VBool False) ])
   \<and> conforms PromptPayloadOptions
        (VObj [] [ (''responseConstraint'', person_constraint),
                   (''omitResponseConstraintInput'', VBool False) ])
   \<and> accepts (session_params ''prompt'') [ p, VObj hs' ps' ] =
       (conforms PromptPayload p \<and> conforms PromptPayloadOptions (VObj hs' ps'))"
proof -
  have shape: "conforms PromptPayloadOptions v =
      (\<exists>hs ps c b. v = VObj hs ps
         \<and> map_of ps ''responseConstraint'' = Some c \<and> conforms PromptResponseConstraint c
         \<and> map_of ps ''omitResponseConstraintInput'' = Some (VBool b))"
    by (cases v) (auto simp: PromptPayloadOptions_def is_boolean_iff split: option.splits)
  have both: "\<not> (\<exists>hs ps. conforms PromptPayloadOptions (VObj hs ps)
      \<and> (map_of ps ''responseConstraint'' = None
           \<or> map_of ps ''omitResponseConstraintInput'' = None))"
    by (auto simp: PromptPayloadOptions_def split: option.splits)
  have only_constraint:
    "\<not> conforms PromptPayloadOptions (VObj [] [ (''responseConstraint'', person_constraint) ])"
    by (simp add: PromptPayloadOptions_def)
  have only_flag:
    "\<not> conforms PromptPayloadOptions (VObj [] [ (''omitResponseConstraintInput'', VBool False) ])"
    by (simp add: PromptPayloadOptions_def)
  have pair: "conforms PromptPayloadOptions
      (VObj [] [ (''responseConstraint'', person_constraint),
                 (''omitResponseConstraintInput'', VBool False) ])"
    by (simp add: PromptPayloadOptions_def person_constraint_conforms)
  have call: "accepts (session_params ''prompt'') [ p, VObj hs' ps' ] =
      (conforms PromptPayload p \<and> conforms PromptPayloadOptions (VObj hs' ps'))"
    by (simp add: session_params_interaction)
  from shape both only_constraint only_flag pair call show ?thesis
    by (simp only: simp_thms)
qed

end
